theory Spec2Isabelle
  imports Complex_Main
begin

section \<open>The embedding service (ml\_service/main.py)\<close>

subsection \<open>Data model\<close>

text \<open>
  The module holds one constant, \<^verbatim>\<open>MODEL_NAME\<close>, and one global object, \<^verbatim>\<open>model\<close>,
  built from it by the sentence-transformers library. The request class has one field.
\<close>

definition MODEL_NAME :: string where
  "MODEL_NAME = ''paraphrase-multilingual-MiniLM-L12-v2''"

record EmbeddingRequest =
  "text" :: string

text \<open>
  The handler carries the floating-point values of an embedding without computing on
  them, so a float is modelled by the number it denotes; the literal \<^verbatim>\<open>0.0\<close> is \<open>0\<close>.
  A numpy array of one axis is the sequence of its elements, and \<^verbatim>\<open>tolist\<close> reads them
  out in order.
\<close>

datatype ndarray = NDArray "real list"

fun tolist :: "ndarray \<Rightarrow> real list" where
  "tolist (NDArray xs) = xs"

text \<open>
  An exception object, as far as the handler observes it: whether it is an instance of
  the class \<^verbatim>\<open>Exception\<close> (what the \<^verbatim>\<open>except\<close> clause tests; \<^verbatim>\<open>KeyboardInterrupt\<close>
  and \<^verbatim>\<open>SystemExit\<close> are not), and the text \<^verbatim>\<open>str(e)\<close>.
\<close>

datatype py_exception = PyExc (isinstance_Exception: bool) (str_e: string)

datatype 'a outcome = Returns 'a | Raises py_exception

subsection \<open>The model object and the calls made to it\<close>

text \<open>
  \<^verbatim>\<open>model.encode\<close> is library code: it is a parameter \<open>enc\<close> of the handler. It reads
  the text and whatever the model object holds (\<open>'m\<close>), returns an array or raises, and
  may leave the object changed. The state of the process is the model object together
  with the log of the texts \<^verbatim>\<open>model.encode\<close> was called with, oldest first.
\<close>

type_synonym 'm encoder = "'m \<Rightarrow> string \<Rightarrow> ndarray outcome \<times> 'm"

record 'm process =
  model :: 'm
  encode_calls :: "string list"

definition model_encode :: "'m encoder \<Rightarrow> string \<Rightarrow> 'm process \<Rightarrow> ndarray outcome \<times> 'm process" where
  "model_encode enc t p =
     (case enc (model p) t of
        (r, m') \<Rightarrow> (r, p\<lparr>model := m', encode_calls := encode_calls p @ [t]\<rparr>))"

subsection \<open>POST /embed\<close>

text \<open>
  The handler is declared \<^verbatim>\<open>async\<close> but awaits nothing: once called it runs to its
  end, so it is a function from the request and the state of the process to its result
  and the state it leaves.

  What the handler hands back to the framework: the dictionary it returns (an
  association list, keys in the order written), or what it raises: the
  \<^verbatim>\<open>HTTPException\<close> it builds, or an exception of the library that its \<^verbatim>\<open>except\<close>
  clause does not catch.
\<close>

datatype raised = HTTPException (status_code: nat) (detail: string) | Uncaught py_exception

type_synonym embed_result = "raised + (string \<times> real list) list"

definition create_embedding ::
    "'m encoder \<Rightarrow> EmbeddingRequest \<Rightarrow> 'm process \<Rightarrow> embed_result \<times> 'm process" where
  "create_embedding enc req p =
     (if text req = [] then (Inr [(''vector'', replicate 384 0)], p)
      else
        (case model_encode enc (text req) p of
           (Returns embedding, p') \<Rightarrow> (Inr [(''vector'', tolist embedding)], p')
         | (Raises e, p') \<Rightarrow>
             (if isinstance_Exception e then (Inl (HTTPException 500 (str_e e)), p')
              else (Inl (Uncaught e), p'))))"

subsection \<open>GET /health\<close>

text \<open>
  At import the module builds the global \<^verbatim>\<open>model\<close> from \<^verbatim>\<open>MODEL_NAME\<close>; the
  constructor is library code, a parameter here. The health handler reads nothing but
  the constant and leaves the process as it is.
\<close>

definition load_model :: "(string \<Rightarrow> 'm) \<Rightarrow> 'm process" where
  "load_model sentence_transformer =
     \<lparr>model = sentence_transformer MODEL_NAME, encode_calls = []\<rparr>"

definition health :: "'m process \<Rightarrow> (string \<times> string) list \<times> 'm process" where
  "health p = ([(''status'', ''ok''), (''model'', MODEL_NAME)], p)"

subsection \<open>The script's entry: choosing the port\<close>

text \<open>
  A Python string whose characters are inspected is the list of its code points.
  \<open>ascii\<close> gives the code points of a literal. The environment maps the name of a
  variable to its value; \<^verbatim>\<open>os.getenv(key, default)\<close> gives the string the
  environment holds for the key, or the default as it was passed (here the integer
  5000), so its result is a string or an integer.
\<close>

type_synonym pystr = "nat list"

definition ascii :: "string \<Rightarrow> pystr" where
  "ascii s = map of_char s"

datatype py_value = PyStr pystr | PyInt int

definition getenv :: "(string \<rightharpoonup> pystr) \<Rightarrow> string \<Rightarrow> py_value \<Rightarrow> py_value" where
  "getenv environ key dflt = (case environ key of Some v \<Rightarrow> PyStr v | None \<Rightarrow> dflt)"

text \<open>
  What \<^verbatim>\<open>int\<close> takes from the interpreter it runs in: the limit on the number of
  digits of a literal (\<^verbatim>\<open>sys.get_int_max_str_digits()\<close>: 4300 unless reconfigured, 0 for
  no limit) and, for the code points from 128 on, the tables of the Unicode database
  that say which are white space and which are decimal digits, with their values.
\<close>

record interpreter =
  int_max_str_digits :: nat
  unicode_isspace :: "nat \<Rightarrow> bool"
  unicode_decimal :: "nat \<Rightarrow> nat option"

text \<open>
  Python's \<^verbatim>\<open>int\<close> on an integer is that integer. On a string (base 10) it first
  rewrites every code point from 128 on: white space to a blank, a decimal digit to the
  ASCII digit of its value, anything else to a question mark; code points below 128
  stay. In the result it skips the blanks 9 to 13 and 32 at both ends, reads an
  optional sign and then digits, where single underscores may stand between digits, and
  raises \<^verbatim>\<open>ValueError\<close> on anything else, the empty string included. A literal of
  more than 640 digits (the threshold below which the limit is not consulted) is also
  refused with \<^verbatim>\<open>ValueError\<close> when a limit is set and it has more digits than the
  limit.
\<close>

datatype py_error = ValueError

definition to_ascii :: "interpreter \<Rightarrow> nat \<Rightarrow> nat" where
  "to_ascii I c =
     (if c < 128 then c
      else if unicode_isspace I c then 32
      else (case unicode_decimal I c of
              Some d \<Rightarrow> if d < 10 then 48 + d else 63
            | None \<Rightarrow> 63))"

definition isspace :: "nat \<Rightarrow> bool" where
  "isspace c = (c \<in> set [9, 10, 11, 12, 13, 32])"

definition strip :: "pystr \<Rightarrow> pystr" where
  "strip s = rev (dropWhile isspace (rev (dropWhile isspace s)))"

definition digit_value :: "nat \<Rightarrow> nat option" where
  "digit_value c = (if 48 \<le> c \<and> c \<le> 57 then Some (c - 48) else None)"

text \<open>
  \<open>digits acc s\<close> reads what follows a digit: more digits, each possibly preceded by
  one underscore (code point 95), up to the end of the string; \<open>acc\<close> is the value read
  so far.
\<close>

fun digits :: "nat \<Rightarrow> pystr \<Rightarrow> nat option" where
  "digits acc [] = Some acc"
| "digits acc [c] =
     (case digit_value c of None \<Rightarrow> None | Some v \<Rightarrow> Some (10 * acc + v))"
| "digits acc (c # d # ds) =
     (if c = 95
      then (case digit_value d of None \<Rightarrow> None | Some v \<Rightarrow> digits (10 * acc + v) ds)
      else (case digit_value c of None \<Rightarrow> None | Some v \<Rightarrow> digits (10 * acc + v) (d # ds)))"

definition digits_threshold :: nat where
  "digits_threshold = 640"

definition over_limit :: "interpreter \<Rightarrow> pystr \<Rightarrow> bool" where
  "over_limit I s =
     (let k = length (filter (\<lambda>x. x \<noteq> 95) s)
      in digits_threshold < k \<and> 0 < int_max_str_digits I \<and> int_max_str_digits I < k)"

definition nat_literal :: "interpreter \<Rightarrow> pystr \<Rightarrow> nat option" where
  "nat_literal I s =
     (case s of
        [] \<Rightarrow> None
      | c # cs \<Rightarrow>
          (case digit_value c of
             None \<Rightarrow> None
           | Some v \<Rightarrow> if over_limit I s then None else digits v cs))"

definition int_of_str :: "interpreter \<Rightarrow> pystr \<Rightarrow> py_error + int" where
  "int_of_str I s =
     (let t = strip (map (to_ascii I) s);
          r = (case t of
                 [] \<Rightarrow> None
               | c # cs \<Rightarrow>
                   if c = 45 then map_option (\<lambda>n. - int n) (nat_literal I cs)
                   else if c = 43 then map_option int (nat_literal I cs)
                   else map_option int (nat_literal I t))
      in case r of None \<Rightarrow> Inl ValueError | Some n \<Rightarrow> Inr n)"

fun py_int :: "interpreter \<Rightarrow> py_value \<Rightarrow> py_error + int" where
  "py_int I (PyInt n) = Inr n"
| "py_int I (PyStr s) = int_of_str I s"

text \<open>
  The block under \<^verbatim>\<open>if __name__ == "__main__"\<close>: it converts the port and hands it to
  \<^verbatim>\<open>uvicorn.run\<close> with the fixed host. The server itself is library code, so the
  block's result is the call it makes (host and port), or the error raised before it.
\<close>

record uvicorn_run =
  host :: string
  port :: int

definition main :: "interpreter \<Rightarrow> (string \<rightharpoonup> pystr) \<Rightarrow> py_error + uvicorn_run" where
  "main I environ =
     (case py_int I (getenv environ ''PORT'' (PyInt 5000)) of
        Inl e \<Rightarrow> Inl e
      | Inr n \<Rightarrow> Inr \<lparr>host = ''0.0.0.0'', port = n\<rparr>)"

subsection \<open>Decimal numerals\<close>

text \<open>
  The decimal numeral of a natural number, as \<^verbatim>\<open>str\<close> writes it: how an integer
  value reaches the environment. \<open>all_digits\<close> and \<open>horner\<close> describe what
  \<open>digits\<close> computes on a string of digits.
\<close>

fun decimal :: "nat \<Rightarrow> pystr" where
  "decimal n =
     (if n < 10 then [48 + n]
      else decimal (n div 10) @ [48 + n mod 10])"

declare decimal.simps [simp del]

definition all_digits :: "pystr \<Rightarrow> bool" where
  "all_digits s = (\<forall>c \<in> set s. digit_value c \<noteq> None)"

definition horner :: "nat \<Rightarrow> pystr \<Rightarrow> nat" where
  "horner acc s = foldl (\<lambda>a c. 10 * a + the (digit_value c)) acc s"

subsection \<open>Stand-ins for running the program\<close>

text \<open>
  The pretrained model is not part of the repository. To run the handler on concrete
  requests, this stand-in takes its place: its object is a counter of the calls it has
  served (so the object does change from call to call), it raises on one text, and
  elsewhere returns 384 numbers that depend on the text alone.
\<close>

definition sample_encode :: "nat encoder" where
  "sample_encode n t =
     (if t = ''boom'' then Raises (PyExc True ''inference fault'')
      else Returns (NDArray (replicate 384 (real (length t)))), Suc n)"

definition sample_process :: "nat process" where
  "sample_process = \<lparr>model = 0, encode_calls = []\<rparr>"

text \<open>
  An interpreter with the default digit limit, the white space of Unicode from 128 on
  and, of its decimal digits, the Arabic-Indic ones (1632 to 1641).
\<close>

definition sample_interpreter :: interpreter where
  "sample_interpreter =
     \<lparr>int_max_str_digits = 4300,
      unicode_isspace = (\<lambda>c. c \<in> set [133, 160, 5760, 8232, 8233, 8239, 8287, 12288]
                              \<or> (8192 \<le> c \<and> c \<le> 8202)),
      unicode_decimal = (\<lambda>c. if 1632 \<le> c \<and> c \<le> 1641 then Some (c - 1632) else None)\<rparr>"

text \<open>
  An encoder that raises what is not an instance of \<^verbatim>\<open>Exception\<close>, as
  \<^verbatim>\<open>SystemExit('shutdown')\<close> is.
\<close>

definition exiting_encode :: "nat encoder" where
  "exiting_encode n t = (Raises (PyExc False ''shutdown''), Suc n)"

section \<open>Properties of POST /embed\<close>

text \<open>
  C2. For the empty input string the handler returns the dictionary whose only entry,
  \<^verbatim>\<open>vector\<close>, is a list of exactly 384 elements, each 0.0, and the process is left as it
  was: nothing is added to the log of calls to \<^verbatim>\<open>model.encode\<close>, so the
  vector is not a result of the model.
\<close>

theorem empty_text_zero_vector:
  "\<exists>v. create_embedding enc \<lparr>text = ''''\<rparr> p = (Inr [(''vector'', v)], p)
        \<and> length v = 384 \<and> set v = {0}
        \<and> encode_calls (snd (create_embedding enc \<lparr>text = ''''\<rparr> p)) = encode_calls p"
  by (simp add: create_embedding_def)

text \<open>
  C1. Every successful response of POST /embed carries a vector of exactly 384 elements,
  the dimensionality of the configured model, the empty text included. That the arrays
  the model returns have 384 elements is a fact of the pretrained model (the source
  records it in a comment), taken as the hypothesis.
\<close>

theorem embed_vector_length:
  assumes dim: "\<forall>m t a m'. enc m t = (Returns a, m') \<longrightarrow> length (tolist a) = 384"
    and ok: "create_embedding enc req p = (Inr body, p')"
  shows "\<exists>v. body = [(''vector'', v)] \<and> length v = 384"
proof (cases "text req = []")
  case True
  with ok show ?thesis by (auto simp: create_embedding_def)
next
  case False
  obtain r m' where e: "enc (model p) (text req) = (r, m')"
    by (cases "enc (model p) (text req)") auto
  show ?thesis
  proof (cases r)
    case (Returns a)
    with dim e have "length (tolist a) = 384" by blast
    with ok False e Returns show ?thesis
      by (auto simp: create_embedding_def model_encode_def)
  next
    case (Raises x)
    with ok False e show ?thesis
      by (auto simp: create_embedding_def model_encode_def split: if_splits)
  qed
qed

theorem embed_vector_length_witness:
  "create_embedding sample_encode \<lparr>text = ''hello''\<rparr> sample_process =
     (Inr [(''vector'', replicate 384 5)], \<lparr>model = 1, encode_calls = [''hello'']\<rparr>)
   \<and> (\<exists>v. [(''vector'', replicate 384 (5::real))] = [(''vector'', v)] \<and> length v = 384)"
proof -
  have d: "\<forall>m t a m'. sample_encode m t = (Returns a, m') \<longrightarrow> length (tolist a) = 384"
    by (auto simp: sample_encode_def split: if_splits)
  have r: "create_embedding sample_encode \<lparr>text = ''hello''\<rparr> sample_process =
     (Inr [(''vector'', replicate 384 5)], \<lparr>model = 1, encode_calls = [''hello'']\<rparr>)"
    by (simp add: create_embedding_def model_encode_def sample_encode_def sample_process_def)
  from embed_vector_length [OF d r] r show ?thesis by simp
qed

text \<open>
  C3. For a non-empty text on which \<^verbatim>\<open>model.encode\<close> returns an array, the handler
  returns the dictionary whose only entry, \<^verbatim>\<open>vector\<close>, is the list of that array's
  elements, in the array's order, with nothing added or dropped. The model is called
  once, with the request's text.
\<close>

theorem nonempty_text_returns_encoding:
  assumes "text req \<noteq> []"
    and "enc (model p) (text req) = (Returns (NDArray xs), m')"
  shows "create_embedding enc req p =
           (Inr [(''vector'', xs)],
            p\<lparr>model := m', encode_calls := encode_calls p @ [text req]\<rparr>)"
  using assms by (simp add: create_embedding_def model_encode_def)

theorem nonempty_text_returns_encoding_witness:
  "create_embedding sample_encode \<lparr>text = ''ab''\<rparr> sample_process =
     (Inr [(''vector'', replicate 384 2)], \<lparr>model = 1, encode_calls = [''ab'']\<rparr>)"
proof -
  have t: "text \<lparr>text = ''ab''\<rparr> \<noteq> []" by simp
  have e: "sample_encode (model sample_process) (text \<lparr>text = ''ab''\<rparr>) =
             (Returns (NDArray (replicate 384 2)), 1)"
    by (simp add: sample_encode_def sample_process_def)
  from nonempty_text_returns_encoding [where enc = sample_encode, OF t e] show ?thesis
    by (simp add: sample_process_def)
qed

text \<open>
  C4. When computing the embedding raises an exception that is an instance of
  \<^verbatim>\<open>Exception\<close>, the class the handler's \<^verbatim>\<open>except\<close> clause names, the handler
  raises an \<^verbatim>\<open>HTTPException\<close> with status code 500 whose detail is exactly
  \<^verbatim>\<open>str(e)\<close> of that exception. The model was called once and is not called again:
  the log of calls has grown by the one entry.
\<close>

theorem inference_failure_is_http_500:
  assumes "text req \<noteq> []"
    and "enc (model p) (text req) = (Raises e, m')"
    and "isinstance_Exception e"
  shows "create_embedding enc req p =
           (Inl (HTTPException 500 (str_e e)),
            p\<lparr>model := m', encode_calls := encode_calls p @ [text req]\<rparr>)"
  using assms by (simp add: create_embedding_def model_encode_def)

theorem inference_failure_is_http_500_witness:
  "create_embedding sample_encode \<lparr>text = ''boom''\<rparr> sample_process =
     (Inl (HTTPException 500 ''inference fault''), \<lparr>model = 1, encode_calls = [''boom'']\<rparr>)"
proof -
  have t: "text \<lparr>text = ''boom''\<rparr> \<noteq> []" by simp
  have e: "sample_encode (model sample_process) (text \<lparr>text = ''boom''\<rparr>) =
             (Raises (PyExc True ''inference fault''), 1)"
    by (simp add: sample_encode_def sample_process_def)
  have i: "isinstance_Exception (PyExc True ''inference fault'')" by simp
  from inference_failure_is_http_500 [where enc = sample_encode, OF t e i] show ?thesis
    by (simp add: sample_process_def)
qed

text \<open>
  The same does not hold of every exception. The \<^verbatim>\<open>except\<close> clause names
  \<^verbatim>\<open>Exception\<close>: what the model raises outside that class (\<^verbatim>\<open>SystemExit\<close>,
  \<^verbatim>\<open>KeyboardInterrupt\<close>) leaves the handler as it is, and is not turned into an
  HTTP error.
\<close>

lemma outside_Exception_propagates:
  assumes "text req \<noteq> []"
    and "enc (model p) (text req) = (Raises e, m')"
    and "\<not> isinstance_Exception e"
  shows "fst (create_embedding enc req p) = Inl (Uncaught e)"
  using assms by (simp add: create_embedding_def model_encode_def)

theorem system_exit_is_not_http_500:
  "exiting_encode (model sample_process) ''hello'' = (Raises (PyExc False ''shutdown''), 1)
   \<and> create_embedding exiting_encode \<lparr>text = ''hello''\<rparr> sample_process =
       (Inl (Uncaught (PyExc False ''shutdown'')), \<lparr>model = 1, encode_calls = [''hello'']\<rparr>)
   \<and> fst (create_embedding exiting_encode \<lparr>text = ''hello''\<rparr> sample_process) \<noteq>
       Inl (HTTPException 500 ''shutdown'')"
  by (simp add: create_embedding_def model_encode_def exiting_encode_def sample_process_def)

text \<open>
  The handler adds no dependence of its own on the state of the process: where the
  model's result for a text is the same in every state of the model object, so is the
  handler's. Whether the pretrained model is such is a matter of the library.
\<close>

lemma handler_adds_no_state_dependence:
  assumes "text req \<noteq> []"
    and det: "\<forall>m m'. fst (enc m (text req)) = fst (enc m' (text req))"
  shows "fst (create_embedding enc req p) = fst (create_embedding enc req q)"
proof -
  obtain r m1 where e1: "enc (model p) (text req) = (r, m1)"
    by (cases "enc (model p) (text req)") auto
  obtain r' m2 where e2: "enc (model q) (text req) = (r', m2)"
    by (cases "enc (model q) (text req)") auto
  from det have "fst (enc (model p) (text req)) = fst (enc (model q) (text req))"
    by blast
  with e1 e2 have "r' = r" by simp
  with e1 e2 show ?thesis
    by (cases r) (simp_all add: create_embedding_def model_encode_def)
qed

text \<open>
  C9. For the empty text the handler always returns: the branch that raises the HTTP 500
  error is not reached. Whenever the handler raises, the text is non-empty and the call
  of \<^verbatim>\<open>model.encode\<close> on it raised.
\<close>

theorem failure_only_from_encode:
  "(\<exists>body. create_embedding enc \<lparr>text = ''''\<rparr> p = (Inr body, p))
   \<and> (\<forall>req r p'. create_embedding enc req p = (Inl r, p') \<longrightarrow>
         text req \<noteq> [] \<and> (\<exists>e m'. enc (model p) (text req) = (Raises e, m')))"
proof (intro conjI allI impI)
  show "\<exists>body. create_embedding enc \<lparr>text = ''''\<rparr> p = (Inr body, p)"
    by (simp add: create_embedding_def)
next
  fix req r p'
  assume f: "create_embedding enc req p = (Inl r, p')"
  then show "text req \<noteq> []"
    by (auto simp: create_embedding_def)
next
  fix req r p'
  assume f: "create_embedding enc req p = (Inl r, p')"
  obtain x m' where e: "enc (model p) (text req) = (x, m')"
    by (cases "enc (model p) (text req)") auto
  with f show "\<exists>e m'. enc (model p) (text req) = (Raises e, m')"
    by (cases x) (auto simp: create_embedding_def model_encode_def split: if_splits)
qed

theorem failure_only_from_encode_witness:
  "create_embedding sample_encode \<lparr>text = ''boom''\<rparr> sample_process =
     (Inl (HTTPException 500 ''inference fault''), \<lparr>model = 1, encode_calls = [''boom'']\<rparr>)
   \<and> text \<lparr>text = ''boom''\<rparr> \<noteq> []
   \<and> (\<exists>e m'. sample_encode (model sample_process) (text \<lparr>text = ''boom''\<rparr>) = (Raises e, m'))
   \<and> (\<exists>body. create_embedding sample_encode \<lparr>text = ''''\<rparr> sample_process = (Inr body, sample_process))"
proof -
  have r: "create_embedding sample_encode \<lparr>text = ''boom''\<rparr> sample_process =
     (Inl (HTTPException 500 ''inference fault''), \<lparr>model = 1, encode_calls = [''boom'']\<rparr>)"
    by (simp add: create_embedding_def model_encode_def sample_encode_def sample_process_def)
  from failure_only_from_encode [of sample_encode sample_process] r show ?thesis
    by blast
qed

section \<open>Properties of GET /health\<close>

text \<open>
  C6. Every call of the health check, in any state of the process, returns exactly
  \<^verbatim>\<open>{"status": "ok", "model": "paraphrase-multilingual-MiniLM-L12-v2"}\<close> and changes
  nothing; the \<^verbatim>\<open>model\<close> entry is the name the loaded model was built from.
\<close>

theorem health_fixed_value:
  "health p =
     ([(''status'', ''ok''), (''model'', ''paraphrase-multilingual-MiniLM-L12-v2'')], p)
   \<and> model (load_model sentence_transformer) =
       sentence_transformer ''paraphrase-multilingual-MiniLM-L12-v2''
   \<and> map_of (fst (health p)) ''model'' = Some MODEL_NAME"
  by (simp add: health_def load_model_def MODEL_NAME_def)

section \<open>Properties of the port selection\<close>

subsection \<open>Decimal numerals are read back\<close>

lemma digit_value_digit: "d < 10 \<Longrightarrow> digit_value (48 + d) = Some d"
  by (simp add: digit_value_def)

lemma digit_value_range: "digit_value c = Some v \<Longrightarrow> 48 \<le> c \<and> c \<le> 57"
  by (auto simp: digit_value_def split: if_splits)

lemma digit_value_not_underscore: "digit_value c = Some v \<Longrightarrow> c \<noteq> 95"
  by (auto dest: digit_value_range)

lemma digit_value_not_sign: "digit_value c = Some v \<Longrightarrow> c \<noteq> 45 \<and> c \<noteq> 43"
  by (auto dest: digit_value_range)

lemma digit_value_not_space: "digit_value c = Some v \<Longrightarrow> \<not> isspace c"
  by (auto simp: isspace_def dest: digit_value_range)

lemma digit_value_to_ascii: "digit_value c = Some v \<Longrightarrow> to_ascii I c = c"
  by (auto simp: to_ascii_def dest: digit_value_range)

lemma digits_horner: "all_digits s \<Longrightarrow> digits acc s = Some (horner acc s)"
proof (induction acc s rule: digits.induct)
  case (1 acc)
  then show ?case by (simp add: horner_def)
next
  case (2 acc c)
  then show ?case by (auto simp: horner_def all_digits_def)
next
  case (3 acc c d ds)
  from "3.prems" obtain v where v: "digit_value c = Some v"
    by (auto simp: all_digits_def)
  then have nu: "c \<noteq> 95" by (rule digit_value_not_underscore)
  from "3.prems" have "all_digits (d # ds)" by (simp add: all_digits_def)
  with "3.IH"(2) [OF nu v]
  have "digits (10 * acc + v) (d # ds) = Some (horner (10 * acc + v) (d # ds))"
    by simp
  with nu v show ?case by (simp add: horner_def)
qed

lemma all_digits_decimal: "all_digits (decimal n)"
proof (induction n rule: decimal.induct)
  case (1 n)
  show ?case
  proof (cases "n < 10")
    case True
    then show ?thesis
      using digit_value_digit [of n] by (simp add: decimal.simps [of n] all_digits_def)
  next
    case False
    with 1 have "all_digits (decimal (n div 10))" by simp
    moreover have "digit_value (48 + n mod 10) = Some (n mod 10)"
      by (rule digit_value_digit) simp
    ultimately show ?thesis
      using False by (simp add: decimal.simps [of n] all_digits_def)
  qed
qed

lemma horner_decimal: "horner 0 (decimal n) = n"
proof (induction n rule: decimal.induct)
  case (1 n)
  show ?case
  proof (cases "n < 10")
    case True
    then show ?thesis
      using digit_value_digit [of n] by (simp add: decimal.simps [of n] horner_def)
  next
    case False
    with 1 have "horner 0 (decimal (n div 10)) = n div 10" by simp
    moreover have "digit_value (48 + n mod 10) = Some (n mod 10)"
      by (rule digit_value_digit) simp
    ultimately show ?thesis
      using False by (simp add: decimal.simps [of n] horner_def)
  qed
qed

lemma decimal_not_Nil: "decimal n \<noteq> []"
  by (simp add: decimal.simps [of n])

lemma length_decimal: "n < 10 ^ k \<Longrightarrow> length (decimal n) \<le> max 1 k"
proof (induction n arbitrary: k rule: decimal.induct)
  case (1 n)
  show ?case
  proof (cases "n < 10")
    case True
    then show ?thesis by (simp add: decimal.simps [of n])
  next
    case False
    with "1.prems" obtain j where k: "k = Suc j" by (cases k) auto
    with "1.prems" have "n div 10 < 10 ^ j"
      by (simp add: less_mult_imp_div_less mult.commute)
    with 1 False have "length (decimal (n div 10)) \<le> max 1 j" by simp
    moreover from False "1.prems" k have "j \<noteq> 0" by (cases j) auto
    ultimately show ?thesis using False k by (simp add: decimal.simps [of n])
  qed
qed

lemma map_to_ascii_digits: "all_digits s \<Longrightarrow> map (to_ascii I) s = s"
  by (induction s) (auto simp: all_digits_def digit_value_to_ascii)

lemma strip_no_space:
  assumes "s \<noteq> []" and "\<not> isspace (hd s)" and "\<not> isspace (last s)"
  shows "strip s = s"
proof -
  from assms(1,2) have a: "dropWhile isspace s = s" by (cases s) auto
  from assms(1,3) have "\<not> isspace (hd (rev s))" by (simp add: hd_rev)
  moreover from assms(1) have "rev s \<noteq> []" by simp
  ultimately have "dropWhile isspace (rev s) = rev s" by (cases "rev s") auto
  with a show ?thesis by (simp add: strip_def)
qed

lemma short_not_over_limit: "length s \<le> digits_threshold \<Longrightarrow> \<not> over_limit I s"
proof -
  assume "length s \<le> digits_threshold"
  with length_filter_le [of "\<lambda>x. x \<noteq> 95" s]
  have "length (filter (\<lambda>x. x \<noteq> 95) s) \<le> digits_threshold" by (rule le_trans)
  then show ?thesis by (simp add: over_limit_def Let_def)
qed

lemma nat_literal_decimal:
  assumes "n < 10 ^ digits_threshold"
  shows "nat_literal I (decimal n) = Some n"
proof -
  obtain c cs where d: "decimal n = c # cs"
    using decimal_not_Nil [of n] by (cases "decimal n") auto
  have ad: "all_digits (c # cs)" using all_digits_decimal [of n] d by simp
  then obtain v where v: "digit_value c = Some v" by (auto simp: all_digits_def)
  from ad have adcs: "all_digits cs" by (simp add: all_digits_def)
  have "1 \<le> digits_threshold" by (simp add: digits_threshold_def)
  with length_decimal [OF assms] have "length (decimal n) \<le> digits_threshold" by simp
  then have le: "\<not> over_limit I (c # cs)" using d short_not_over_limit [of "decimal n" I] by simp
  have "horner v cs = horner 0 (c # cs)" using v by (simp add: horner_def)
  also have "\<dots> = n" using horner_decimal [of n] d by simp
  finally have h: "horner v cs = n" .
  have "nat_literal I (c # cs) = digits v cs"
    using v le unfolding nat_literal_def by simp
  with digits_horner [OF adcs, of v] h d show ?thesis by simp
qed

lemma int_of_str_decimal:
  assumes "n < 10 ^ digits_threshold"
  shows "int_of_str I (decimal n) = Inr (int n)"
proof -
  obtain c cs where d: "decimal n = c # cs"
    using decimal_not_Nil [of n] by (cases "decimal n") auto
  have ad: "all_digits (decimal n)" by (rule all_digits_decimal)
  with d obtain v where v: "digit_value c = Some v" by (auto simp: all_digits_def)
  from decimal_not_Nil [of n] have "last (decimal n) \<in> set (decimal n)"
    by (rule last_in_set)
  with ad obtain w where w: "digit_value (last (decimal n)) = Some w"
    by (auto simp: all_digits_def)
  have m: "map (to_ascii I) (decimal n) = decimal n"
    using ad by (rule map_to_ascii_digits)
  have "strip (decimal n) = decimal n"
  proof (rule strip_no_space)
    show "decimal n \<noteq> []" by (rule decimal_not_Nil)
    show "\<not> isspace (hd (decimal n))" using d digit_value_not_space [OF v] by simp
    show "\<not> isspace (last (decimal n))" by (rule digit_value_not_space [OF w])
  qed
  moreover note digit_value_not_sign [OF v] nat_literal_decimal [OF assms, of I]
  ultimately show ?thesis using d m by (simp add: int_of_str_def)
qed

subsection \<open>Values of at most 640 characters do not meet the digit limit\<close>

lemma length_strip_le: "length (strip s) \<le> length s"
proof -
  have "length (strip s) \<le> length (dropWhile isspace s)"
    unfolding strip_def using length_dropWhile_le [of isspace "rev (dropWhile isspace s)"]
    by simp
  also have "\<dots> \<le> length s" by (rule length_dropWhile_le)
  finally show ?thesis .
qed

lemma nat_literal_short:
  "length s \<le> digits_threshold \<Longrightarrow>
     nat_literal (I\<lparr>int_max_str_digits := l\<rparr>) s = nat_literal I s"
  using short_not_over_limit [of s I] short_not_over_limit [of s "I\<lparr>int_max_str_digits := l\<rparr>"]
  by (auto simp: nat_literal_def split: list.splits option.splits)

lemma int_of_str_short:
  assumes "length s \<le> digits_threshold"
  shows "int_of_str (I\<lparr>int_max_str_digits := l\<rparr>) s = int_of_str I s"
proof -
  let ?J = "I\<lparr>int_max_str_digits := l\<rparr>"
  have ta: "to_ascii ?J = to_ascii I"
    by (rule ext) (simp add: to_ascii_def)
  let ?t = "strip (map (to_ascii I) s)"
  have lt: "length ?t \<le> digits_threshold"
    using length_strip_le [of "map (to_ascii I) s"] assms by simp
  show ?thesis
  proof (cases ?t)
    case Nil
    then show ?thesis by (simp add: int_of_str_def ta)
  next
    case (Cons c cs)
    with lt have "length cs \<le> digits_threshold" and "length (c # cs) \<le> digits_threshold"
      by simp_all
    then have "nat_literal ?J cs = nat_literal I cs"
      and "nat_literal ?J (c # cs) = nat_literal I (c # cs)"
      by (simp_all only: nat_literal_short)
    with Cons show ?thesis by (simp add: int_of_str_def ta)
  qed
qed

subsection \<open>What is not a numeral is refused\<close>

lemma in_set_dropWhile: "x \<in> set s \<Longrightarrow> \<not> P x \<Longrightarrow> x \<in> set (dropWhile P s)"
  by (induction s) auto

lemma in_set_strip: "x \<in> set s \<Longrightarrow> \<not> isspace x \<Longrightarrow> x \<in> set (strip s)"
  by (simp add: strip_def in_set_dropWhile)

lemma digits_Some_chars:
  "digits acc s = Some n \<Longrightarrow> x \<in> set s \<Longrightarrow> digit_value x \<noteq> None \<or> x = 95"
  by (induction acc s arbitrary: n rule: digits.induct)
     (auto split: option.splits if_splits)

lemma nat_literal_Some_chars:
  "nat_literal I s = Some n \<Longrightarrow> x \<in> set s \<Longrightarrow> digit_value x \<noteq> None \<or> x = 95"
  by (cases s) (auto simp: nat_literal_def split: option.splits if_splits dest: digits_Some_chars)

lemma int_of_str_Inr_chars:
  assumes "int_of_str I s = Inr n" and "x \<in> set (map (to_ascii I) s)"
  shows "isspace x \<or> digit_value x \<noteq> None \<or> x = 95 \<or> x = 43 \<or> x = 45"
proof (cases "isspace x")
  case True
  then show ?thesis by simp
next
  case False
  with assms(2) have x: "x \<in> set (strip (map (to_ascii I) s))" by (rule in_set_strip)
  then obtain c cs where t: "strip (map (to_ascii I) s) = c # cs"
    by (cases "strip (map (to_ascii I) s)") auto
  show ?thesis
  proof (cases "c = 45 \<or> c = 43")
    case True
    with assms(1) t obtain k where "nat_literal I cs = Some k"
      by (auto simp: int_of_str_def split: option.splits if_splits)
    with nat_literal_Some_chars [of I cs k x] x t True show ?thesis by auto
  next
    case False
    with assms(1) t obtain k where "nat_literal I (c # cs) = Some k"
      by (auto simp: int_of_str_def split: option.splits if_splits)
    with nat_literal_Some_chars [of I "c # cs" k x] x t show ?thesis by auto
  qed
qed

text \<open>
  A string holding a character that is rewritten to anything other than a digit, a
  blank, a sign or an underscore is refused, as is the empty string. The code points 28
  to 31 and 127 are such characters in every interpreter.
\<close>

lemma int_of_str_foreign_character:
  assumes "x \<in> set s" and "\<not> isspace (to_ascii I x)" and "digit_value (to_ascii I x) = None"
    and "to_ascii I x \<noteq> 95" and "to_ascii I x \<noteq> 43" and "to_ascii I x \<noteq> 45"
  shows "int_of_str I s = Inl ValueError"
proof (cases "int_of_str I s")
  case (Inl e)
  then show ?thesis by (cases e) simp
next
  case (Inr n)
  from assms(1) have "to_ascii I x \<in> set (map (to_ascii I) s)" by simp
  from int_of_str_Inr_chars [OF Inr this] assms(2-6) show ?thesis by simp
qed

lemma int_of_str_separator:
  assumes "x \<in> set s" and "x \<in> {28, 29, 30, 31, 127}"
  shows "int_of_str I s = Inl ValueError"
proof (rule int_of_str_foreign_character [OF assms(1)])
  from assms(2) have x: "to_ascii I x = x" by (auto simp: to_ascii_def)
  from assms(2) show "\<not> isspace (to_ascii I x)" unfolding x by (auto simp: isspace_def)
  from assms(2) show "digit_value (to_ascii I x) = None" unfolding x
    by (auto simp: digit_value_def)
  from assms(2) show "to_ascii I x \<noteq> 95" "to_ascii I x \<noteq> 43" "to_ascii I x \<noteq> 45"
    unfolding x by auto
qed

lemma int_of_str_empty: "int_of_str I [] = Inl ValueError"
  by (simp add: int_of_str_def strip_def)

subsection \<open>The port\<close>

text \<open>
  C8. The port handed to the server is selected by the environment variable PORT.
  When PORT is unset the server is started on port 5000. When PORT is set to a string
  that \<^verbatim>\<open>int\<close> reads as the integer \<open>n\<close>, the server is started on port \<open>n\<close>; the
  decimal numeral of every natural number below \<open>10 ^ 640\<close> is such a string, in every
  interpreter. For a value of at most 640 characters nothing else has any influence:
  neither another variable of the environment nor the interpreter's digit limit
  (which the variable PYTHONINTMAXSTRDIGITS sets when the interpreter starts).
\<close>

theorem port_from_environment:
  "(environ ''PORT'' = None \<longrightarrow> main I environ = Inr \<lparr>host = ''0.0.0.0'', port = 5000\<rparr>)
   \<and> (\<forall>s n. environ ''PORT'' = Some s \<and> py_int I (PyStr s) = Inr n \<longrightarrow>
          main I environ = Inr \<lparr>host = ''0.0.0.0'', port = n\<rparr>)
   \<and> (\<forall>n < 10 ^ digits_threshold. environ ''PORT'' = Some (decimal n) \<longrightarrow>
          main I environ = Inr \<lparr>host = ''0.0.0.0'', port = int n\<rparr>)
   \<and> (\<forall>environ' l. environ' ''PORT'' = environ ''PORT''
          \<and> (\<forall>s. environ ''PORT'' = Some s \<longrightarrow> length s \<le> digits_threshold) \<longrightarrow>
          main (I\<lparr>int_max_str_digits := l\<rparr>) environ' = main I environ)"
proof (intro conjI allI impI)
  assume "environ ''PORT'' = None"
  then show "main I environ = Inr \<lparr>host = ''0.0.0.0'', port = 5000\<rparr>"
    by (simp add: main_def getenv_def)
next
  fix s n
  assume "environ ''PORT'' = Some s \<and> py_int I (PyStr s) = Inr n"
  then show "main I environ = Inr \<lparr>host = ''0.0.0.0'', port = n\<rparr>"
    by (simp add: main_def getenv_def)
next
  fix n :: nat
  assume "n < 10 ^ digits_threshold" and "environ ''PORT'' = Some (decimal n)"
  then show "main I environ = Inr \<lparr>host = ''0.0.0.0'', port = int n\<rparr>"
    by (simp add: main_def getenv_def int_of_str_decimal)
next
  fix environ' l
  assume a: "environ' ''PORT'' = environ ''PORT''
             \<and> (\<forall>s. environ ''PORT'' = Some s \<longrightarrow> length s \<le> digits_threshold)"
  show "main (I\<lparr>int_max_str_digits := l\<rparr>) environ' = main I environ"
  proof (cases "environ ''PORT''")
    case None
    with a show ?thesis by (simp add: main_def getenv_def)
  next
    case (Some s)
    with a have "length s \<le> digits_threshold" by simp
    then have "int_of_str (I\<lparr>int_max_str_digits := l\<rparr>) s = int_of_str I s"
      by (rule int_of_str_short)
    with a Some show ?thesis by (simp add: main_def getenv_def)
  qed
qed

theorem port_from_environment_witness:
  "main sample_interpreter [''PORT'' \<mapsto> ascii ''8080''] = Inr \<lparr>host = ''0.0.0.0'', port = 8080\<rparr>
   \<and> main sample_interpreter [''PORT'' \<mapsto> ascii '' +80_80 ''] =
        Inr \<lparr>host = ''0.0.0.0'', port = 8080\<rparr>
   \<and> main sample_interpreter [''PORT'' \<mapsto> [160, 1640, 1632, 1640, 1632, 133]] =
        Inr \<lparr>host = ''0.0.0.0'', port = 8080\<rparr>
   \<and> main sample_interpreter Map.empty = Inr \<lparr>host = ''0.0.0.0'', port = 5000\<rparr>
   \<and> main (sample_interpreter\<lparr>int_max_str_digits := 640\<rparr>)
          [''PORT'' \<mapsto> ascii ''8080'', ''PYTHONINTMAXSTRDIGITS'' \<mapsto> ascii ''640''] =
        main sample_interpreter [''PORT'' \<mapsto> ascii ''8080'']"
proof -
  note ev = int_of_str_def strip_def isspace_def nat_literal_def digit_value_def
    over_limit_def digits_threshold_def to_ascii_def sample_interpreter_def ascii_def
  have d: "decimal 8080 = ascii ''8080''"
    by (simp add: decimal.simps ascii_def)
  have "(8080::nat) < 10 ^ 4" by simp
  also have "(10::nat) ^ 4 \<le> 10 ^ digits_threshold"
    by (rule power_increasing) (simp_all add: digits_threshold_def)
  finally have l: "(8080::nat) < 10 ^ digits_threshold" .
  have p: "[''PORT'' \<mapsto> ascii ''8080''] ''PORT'' = Some (decimal 8080)" using d by simp
  have 1: "main sample_interpreter [''PORT'' \<mapsto> ascii ''8080''] =
           Inr \<lparr>host = ''0.0.0.0'', port = 8080\<rparr>"
    using port_from_environment [of "[''PORT'' \<mapsto> ascii ''8080'']" sample_interpreter,
        THEN conjunct2, THEN conjunct2, THEN conjunct1, rule_format, OF l p] by simp
  have e: "[''PORT'' \<mapsto> ascii '' +80_80 ''] ''PORT'' = Some (ascii '' +80_80 '')
           \<and> py_int sample_interpreter (PyStr (ascii '' +80_80 '')) = Inr 8080"
    by (simp add: ev)
  have 2: "main sample_interpreter [''PORT'' \<mapsto> ascii '' +80_80 ''] =
           Inr \<lparr>host = ''0.0.0.0'', port = 8080\<rparr>"
    by (rule port_from_environment [of "[''PORT'' \<mapsto> ascii '' +80_80 '']" sample_interpreter,
        THEN conjunct2, THEN conjunct1, rule_format, OF e])
  have u: "[''PORT'' \<mapsto> [160, 1640, 1632, 1640, 1632, 133]] ''PORT'' =
             Some [160, 1640, 1632, 1640, 1632, 133]
           \<and> py_int sample_interpreter (PyStr [160, 1640, 1632, 1640, 1632, 133]) = Inr 8080"
    by (simp add: ev)
  have 3: "main sample_interpreter [''PORT'' \<mapsto> [160, 1640, 1632, 1640, 1632, 133]] =
           Inr \<lparr>host = ''0.0.0.0'', port = 8080\<rparr>"
    by (rule port_from_environment [of "[''PORT'' \<mapsto> [160, 1640, 1632, 1640, 1632, 133]]"
        sample_interpreter, THEN conjunct2, THEN conjunct1, rule_format, OF u])
  have 4: "main sample_interpreter Map.empty = Inr \<lparr>host = ''0.0.0.0'', port = 5000\<rparr>"
    using port_from_environment [of Map.empty sample_interpreter, THEN conjunct1] by simp
  have s: "[''PORT'' \<mapsto> ascii ''8080'', ''PYTHONINTMAXSTRDIGITS'' \<mapsto> ascii ''640''] ''PORT'' =
             [''PORT'' \<mapsto> ascii ''8080''] ''PORT''
           \<and> (\<forall>s. [''PORT'' \<mapsto> ascii ''8080''] ''PORT'' = Some s \<longrightarrow>
                  length s \<le> digits_threshold)"
    by (simp add: ascii_def digits_threshold_def)
  have 5: "main (sample_interpreter\<lparr>int_max_str_digits := 640\<rparr>)
             [''PORT'' \<mapsto> ascii ''8080'', ''PYTHONINTMAXSTRDIGITS'' \<mapsto> ascii ''640''] =
           main sample_interpreter [''PORT'' \<mapsto> ascii ''8080'']"
    by (rule port_from_environment [of "[''PORT'' \<mapsto> ascii ''8080'']" sample_interpreter,
        THEN conjunct2, THEN conjunct2, THEN conjunct2, rule_format,
        where environ' = "[''PORT'' \<mapsto> ascii ''8080'', ''PYTHONINTMAXSTRDIGITS'' \<mapsto> ascii ''640'']"
          and l = 640, OF s])
  from 1 2 3 4 5 show ?thesis by simp
qed

text \<open>
  C10. When PORT is set to a string on which \<^verbatim>\<open>int\<close> raises, the entry block raises
  that error: no server is started, on port 5000 or on any other.
\<close>

theorem invalid_port_raises:
  assumes "environ ''PORT'' = Some s"
    and "py_int I (PyStr s) = Inl e"
  shows "main I environ = Inl e \<and> (\<forall>c. main I environ \<noteq> Inr c)"
  using assms by (simp add: main_def getenv_def)

theorem invalid_port_raises_witness:
  "main sample_interpreter [''PORT'' \<mapsto> ascii ''abc''] = Inl ValueError
   \<and> main sample_interpreter [''PORT'' \<mapsto> ascii ''abc''] \<noteq> Inr \<lparr>host = ''0.0.0.0'', port = 5000\<rparr>
   \<and> main sample_interpreter [''PORT'' \<mapsto> 28 # ascii ''8080''] = Inl ValueError
   \<and> main sample_interpreter [''PORT'' \<mapsto> []] = Inl ValueError"
proof -
  note ev = int_of_str_def strip_def isspace_def nat_literal_def digit_value_def
    over_limit_def digits_threshold_def to_ascii_def sample_interpreter_def ascii_def
  have s1: "[''PORT'' \<mapsto> ascii ''abc''] ''PORT'' = Some (ascii ''abc'')" by simp
  have e1: "py_int sample_interpreter (PyStr (ascii ''abc'')) = Inl ValueError"
    by (simp add: ev)
  have s2: "[''PORT'' \<mapsto> 28 # ascii ''8080''] ''PORT'' = Some (28 # ascii ''8080'')" by simp
  have e2: "py_int sample_interpreter (PyStr (28 # ascii ''8080'')) = Inl ValueError"
    by (simp add: ev)
  have s3: "[''PORT'' \<mapsto> []] ''PORT'' = Some ([]::pystr)" by simp
  have e3: "py_int sample_interpreter (PyStr []) = Inl ValueError"
    by (simp add: ev)
  from invalid_port_raises [where environ = "[''PORT'' \<mapsto> ascii ''abc'']", OF s1 e1]
    invalid_port_raises [where environ = "[''PORT'' \<mapsto> 28 # ascii ''8080'']", OF s2 e2]
    invalid_port_raises [where environ = "[''PORT'' \<mapsto> []]", OF s3 e3]
  show ?thesis by simp
qed

end
